theory Spec2Isabelle
  imports Main "HOL-Library.Sublist"
begin

section \<open>Python strings\<close>

text \<open>
  A Python \<open>str\<close> is modelled as a \<open>string\<close> holding its UTF-8 bytes.  The case
  mappings \<open>str.upper\<close> and \<open>str.lower\<close> act on the ASCII letters and leave every other
  byte alone; \<open>str.strip\<close> removes the ASCII characters for which \<open>str.isspace\<close> holds.
\<close>

definition upper_char :: "char \<Rightarrow> char" where
  "upper_char c =
     (case map_of (zip ''abcdefghijklmnopqrstuvwxyz'' ''ABCDEFGHIJKLMNOPQRSTUVWXYZ'') c of
        None \<Rightarrow> c | Some d \<Rightarrow> d)"

definition lower_char :: "char \<Rightarrow> char" where
  "lower_char c =
     (case map_of (zip ''ABCDEFGHIJKLMNOPQRSTUVWXYZ'' ''abcdefghijklmnopqrstuvwxyz'') c of
        None \<Rightarrow> c | Some d \<Rightarrow> d)"

definition upper :: "string \<Rightarrow> string" where
  "upper s = map upper_char s"

definition lower :: "string \<Rightarrow> string" where
  "lower s = map lower_char s"

definition is_space :: "char \<Rightarrow> bool" where
  "is_space c \<longleftrightarrow>
     c \<in> set [CHR 0x09, CHR 0x0A, CHR 0x0B, CHR 0x0C, CHR 0x0D,
               CHR 0x1C, CHR 0x1D, CHR 0x1E, CHR 0x1F, CHR 0x20]"

definition lstrip :: "string \<Rightarrow> string" where
  "lstrip s = dropWhile is_space s"

definition rstrip :: "string \<Rightarrow> string" where
  "rstrip s = rev (dropWhile is_space (rev s))"

definition strip :: "string \<Rightarrow> string" where
  "strip s = rstrip (lstrip s)"

text \<open>\<open>s.rstrip(chars)\<close> with an explicit character set.\<close>

definition rstrip_chars :: "string \<Rightarrow> string \<Rightarrow> string" where
  "rstrip_chars chars s = rev (dropWhile (\<lambda>c. c \<in> set chars) (rev s))"

text \<open>\<open>s.startswith(p)\<close> and \<open>needle in hay\<close>.\<close>

definition startswith :: "string \<Rightarrow> string \<Rightarrow> bool" where
  "startswith s p = prefix p s"

fun py_in :: "string \<Rightarrow> string \<Rightarrow> bool" where
  "py_in needle [] = (needle = [])"
| "py_in needle (c # cs) = (prefix needle (c # cs) \<or> py_in needle cs)"

text \<open>
  \<open>hay.find(needle, start)\<close>: the least index \<open>i \<ge> start\<close> at which \<open>needle\<close> occurs,
  or \<open>-1\<close>.  \<open>find_from\<close> scans the suffix that begins at index \<open>i\<close>.
\<close>

fun find_from :: "string \<Rightarrow> nat \<Rightarrow> string \<Rightarrow> int" where
  "find_from needle i [] = (if needle = [] then int i else -1)"
| "find_from needle i (c # cs) =
     (if prefix needle (c # cs) then int i else find_from needle (Suc i) cs)"

definition py_find :: "string \<Rightarrow> string \<Rightarrow> nat \<Rightarrow> int" where
  "py_find hay needle start =
     (if start > length hay then -1 else find_from needle start (drop start hay))"

text \<open>\<open>s[a:b]\<close> for \<open>a \<ge> 0\<close>; a negative \<open>b\<close> counts from the end of the string.\<close>

definition slice :: "string \<Rightarrow> nat \<Rightarrow> int \<Rightarrow> string" where
  "slice s a b =
     (let n = int (length s);
          e = (if b < 0 then max 0 (n + b) else min b n)
      in drop a (take (nat e) s))"

text \<open>\<open>s.replace(old, new)\<close> for a one-character \<open>old\<close>.\<close>

definition replace_char :: "char \<Rightarrow> string \<Rightarrow> string \<Rightarrow> string" where
  "replace_char old new s = concat (map (\<lambda>c. if c = old then new else [c]) s)"

text \<open>Decimal rendering of a natural number and of an integer (\<open>str(n)\<close>).\<close>

definition digit_char :: "nat \<Rightarrow> char" where
  "digit_char d = ''0123456789'' ! (d mod 10)"

fun str_nat :: "nat \<Rightarrow> string" where
  "str_nat n = (if n < 10 then [digit_char n] else str_nat (n div 10) @ [digit_char (n mod 10)])"

definition str_int :: "int \<Rightarrow> string" where
  "str_int i = (if i < 0 then CHR ''-'' # str_nat (nat (- i)) else str_nat (nat i))"

text \<open>\<open>s.rjust(w, '0')\<close> on a digit string.\<close>

definition zfill :: "nat \<Rightarrow> string \<Rightarrow> string" where
  "zfill w s = replicate (w - length s) CHR ''0'' @ s"

section \<open>Exceptions\<close>

text \<open>
  An exception is its class and the text \<open>str(e)\<close> gives for it.  A function that can
  raise returns \<open>exn + 'a\<close>, with \<open>Inl\<close> for the exception.
\<close>

datatype exn =
    ValueError string
  | RuntimeError string
  | InvalidOperation string
  | TypeError string
  | OverflowError string

fun exn_str :: "exn \<Rightarrow> string" where
  "exn_str (ValueError m) = m"
| "exn_str (RuntimeError m) = m"
| "exn_str (InvalidOperation m) = m"
| "exn_str (TypeError m) = m"
| "exn_str (OverflowError m) = m"

section \<open>Calendar dates and instants (\<open>datetime\<close>)\<close>

datatype date = Date (year: nat) (month: nat) (day: nat)

definition is_leap :: "nat \<Rightarrow> bool" where
  "is_leap y \<longleftrightarrow> y mod 4 = 0 \<and> (y mod 100 \<noteq> 0 \<or> y mod 400 = 0)"

definition days_in_month :: "nat \<Rightarrow> nat \<Rightarrow> nat" where
  "days_in_month y m =
     (if m = 2 \<and> is_leap y then 29
      else [0, 31, 28, 31, 30, 31, 30, 31, 31, 30, 31, 30, 31] ! m)"

definition days_before_year :: "nat \<Rightarrow> int" where
  "days_before_year y = (let z = int y - 1 in z * 365 + z div 4 - z div 100 + z div 400)"

definition days_before_month :: "nat \<Rightarrow> nat \<Rightarrow> int" where
  "days_before_month y m =
     int ([0, 0, 31, 59, 90, 120, 151, 181, 212, 243, 273, 304, 334] ! m)
       + (if m > 2 \<and> is_leap y then 1 else 0)"

text \<open>\<open>date.toordinal()\<close>: day 1 is 0001-01-01.\<close>

definition toordinal :: "date \<Rightarrow> int" where
  "toordinal d = days_before_year (year d) + days_before_month (year d) (month d) + int (day d)"

text \<open>The checks of the \<open>date\<close> constructor.\<close>

definition valid_date :: "date \<Rightarrow> bool" where
  "valid_date d \<longleftrightarrow>
     1 \<le> year d \<and> year d \<le> 9999 \<and> 1 \<le> month d \<and> month d \<le> 12 \<and>
     1 \<le> day d \<and> day d \<le> days_in_month (year d) (month d)"

definition make_date :: "nat \<Rightarrow> nat \<Rightarrow> nat \<Rightarrow> exn + date" where
  "make_date y m d =
     (if \<not> (1 \<le> y \<and> y \<le> 9999) then Inl (ValueError ''year is out of range'')
      else if \<not> (1 \<le> m \<and> m \<le> 12) then Inl (ValueError ''month must be in 1..12'')
      else if \<not> (1 \<le> d \<and> d \<le> days_in_month y m)
        then Inl (ValueError ''day is out of range for month'')
      else Inr (Date y m d))"

text \<open>Comparison of dates is comparison of \<open>(year, month, day)\<close>.\<close>

definition date_less :: "date \<Rightarrow> date \<Rightarrow> bool" where
  "date_less a b \<longleftrightarrow>
     year a < year b \<or> (year a = year b \<and>
       (month a < month b \<or> (month a = month b \<and> day a < day b)))"

text \<open>The day before and the day after, with the \<open>OverflowError\<close> at the ends of the calendar.\<close>

definition prev_day :: "date \<Rightarrow> exn + date" where
  "prev_day d =
     (if day d > 1 then Inr (Date (year d) (month d) (day d - 1))
      else if month d > 1
        then Inr (Date (year d) (month d - 1) (days_in_month (year d) (month d - 1)))
      else if year d > 1 then Inr (Date (year d - 1) 12 31)
      else Inl (OverflowError ''date value out of range''))"

definition next_day :: "date \<Rightarrow> exn + date" where
  "next_day d =
     (if day d < days_in_month (year d) (month d) then Inr (Date (year d) (month d) (day d + 1))
      else if month d < 12 then Inr (Date (year d) (month d + 1) 1)
      else if year d < 9999 then Inr (Date (year d + 1) 1 1)
      else Inl (OverflowError ''date value out of range''))"

text \<open>
  A \<open>datetime\<close>: a wall-clock reading with the offset of its zone from UTC in minutes
  (\<open>None\<close> for a naive value).
\<close>

datatype datetime =
  DateTime (dt_date: date) (hour: nat) (minute: nat) (second: nat) (microsecond: nat)
           (utcoffset: "int option")

text \<open>
  \<open>dt.astimezone(tz)\<close> for a zone of fixed offset \<open>off\<close> (minutes).  Two offsets differ by
  less than a day, so the date moves by at most one day.
\<close>

definition astimezone :: "int \<Rightarrow> datetime \<Rightarrow> exn + datetime" where
  "astimezone off dt =
     (let cur = (case utcoffset dt of None \<Rightarrow> 0 | Some x \<Rightarrow> x);
          t = int (hour dt) * 60 + int (minute dt) + (off - cur)
      in if t < 0 then
           (case prev_day (dt_date dt) of
              Inl e \<Rightarrow> Inl e
            | Inr d \<Rightarrow> Inr (DateTime d (nat ((t + 1440) div 60)) (nat ((t + 1440) mod 60))
                              (second dt) (microsecond dt) (Some off)))
         else if t \<ge> 1440 then
           (case next_day (dt_date dt) of
              Inl e \<Rightarrow> Inl e
            | Inr d \<Rightarrow> Inr (DateTime d (nat ((t - 1440) div 60)) (nat ((t - 1440) mod 60))
                              (second dt) (microsecond dt) (Some off)))
         else Inr (DateTime (dt_date dt) (nat (t div 60)) (nat (t mod 60))
                     (second dt) (microsecond dt) (Some off)))"

text \<open>
  \<open>ZoneInfo("America/Bogota")\<close>: the zone has no daylight saving time, its offset is
  UTC-05:00 at every instant the clock returns.
\<close>

definition bogota_offset :: int where
  "bogota_offset = - 300"

text \<open>\<open>bot/utils/time_utils.py\<close>, \<open>convert_utc_to_local(utc_dt, "America/Bogota")\<close>.\<close>

definition convert_utc_to_local :: "datetime \<Rightarrow> exn + datetime" where
  "convert_utc_to_local utc_dt =
     (if utcoffset utc_dt = None then Inl (ValueError ''utc_dt debe ser timezone-aware'')
      else astimezone bogota_offset utc_dt)"

text \<open>
  \<open>d.strftime("%Y-%m-%d")\<close>, the year written with four digits (what the C library
  prints for the years 1000 to 9999).
\<close>

definition strftime_ymd :: "date \<Rightarrow> string" where
  "strftime_ymd d =
     zfill 4 (str_nat (year d)) @ ''-'' @ zfill 2 (str_nat (month d)) @ ''-''
       @ zfill 2 (str_nat (day d))"

subsection \<open>Parsing dates\<close>

definition is_digit :: "char \<Rightarrow> bool" where
  "is_digit c \<longleftrightarrow> c \<in> set ''0123456789''"

definition digit_val :: "char \<Rightarrow> nat" where
  "digit_val c =
     (case map_of (zip ''0123456789'' [0, 1, 2, 3, 4, 5, 6, 7, 8, 9]) c of
        None \<Rightarrow> 0 | Some d \<Rightarrow> d)"

definition nat_of_digits :: "string \<Rightarrow> nat" where
  "nat_of_digits s = foldl (\<lambda>a c. 10 * a + digit_val c) 0 s"

text \<open>
  \<open>datetime.strptime(s, "%Y-%m-%d").date()\<close>.  The format compiles to the regular
  expression \<open>(\d\d\d\d)-(1[0-2]|0[1-9]|[1-9])-(3[01]|[12]\d|0[1-9]|[1-9]| [1-9])\<close>,
  which has to match the whole string; the fields then go through the \<open>date\<close>
  constructor.
\<close>

definition month_token :: "string \<Rightarrow> bool" where
  "month_token s \<longleftrightarrow>
     (case s of
        [a] \<Rightarrow> a \<in> set ''123456789''
      | [a, b] \<Rightarrow> (a = CHR ''1'' \<and> b \<in> set ''012'') \<or> (a = CHR ''0'' \<and> b \<in> set ''123456789'')
      | _ \<Rightarrow> False)"

definition day_token :: "string \<Rightarrow> bool" where
  "day_token s \<longleftrightarrow>
     (case s of
        [a] \<Rightarrow> a \<in> set ''123456789''
      | [a, b] \<Rightarrow> (a = CHR ''3'' \<and> b \<in> set ''01'') \<or> (a \<in> set ''12'' \<and> is_digit b)
                 \<or> (a \<in> set ''0 '' \<and> b \<in> set ''123456789'')
      | _ \<Rightarrow> False)"

definition strptime_ymd :: "string \<Rightarrow> exn + date" where
  "strptime_ymd s =
     (let ys = take 4 s; r = drop 4 s;
          ms = takeWhile (\<lambda>c. c \<noteq> CHR ''-'') (drop 1 r);
          ds = drop (Suc (length ms)) (drop 1 r)
      in if length ys = 4 \<and> list_all is_digit ys \<and> take 1 r = ''-'' \<and> month_token ms
            \<and> take 1 (drop (length ms) (drop 1 r)) = ''-'' \<and> day_token ds
         then make_date (nat_of_digits ys) (nat_of_digits ms) (nat_of_digits ds)
         else Inl (ValueError (''time data '' @ s @ '' does not match format %Y-%m-%d'')))"

text \<open>
  \<open>date.fromisoformat(s)\<close> on the calendar form \<open>YYYY-MM-DD\<close>: ten characters, digits
  around two dashes, then the \<open>date\<close> constructor.  The basic form \<open>YYYYMMDD\<close> and the
  week dates that interpreters from 3.11 on accept as well are not modelled.
\<close>

definition fromisoformat :: "string \<Rightarrow> exn + date" where
  "fromisoformat s =
     (if length s = 10 \<and> list_all is_digit (take 4 s) \<and> s ! 4 = CHR ''-''
         \<and> list_all is_digit (take 2 (drop 5 s)) \<and> s ! 7 = CHR ''-''
         \<and> list_all is_digit (drop 8 s)
      then make_date (nat_of_digits (take 4 s)) (nat_of_digits (take 2 (drop 5 s)))
             (nat_of_digits (drop 8 s))
      else Inl (ValueError (''Invalid isoformat string: '' @ s)))"

section \<open>The collaborators: clock, model and database\<close>

text \<open>
  The generative model and the database are outside the program.  Each is an oracle of
  the environment, asked with the number of earlier calls and the request; every call is
  appended to a log in the \<open>world\<close>, so that "no call was made" is a statement about the
  log.  A prompt is kept as the values interpolated into its text.  Writing to the
  program's logger is not modelled.
\<close>

datatype sqlval =
    SqlNone
  | SqlNum (num_str: string) (num_fmt: "string option")
  | SqlText string
  | SqlOther string

text \<open>
  A value of a result row: \<open>None\<close>; a number (\<open>int\<close>, \<open>float\<close> or \<open>Decimal\<close>) given by what
  \<open>str(v)\<close> and \<open>format(v, ",.2f")\<close> return for it (\<open>None\<close> when the latter raises); a
  \<open>str\<close>; or any other value, given by \<open>str(v)\<close>.
\<close>

fun str_value :: "sqlval \<Rightarrow> string" where
  "str_value SqlNone = ''None''"
| "str_value (SqlNum s f) = s"
| "str_value (SqlText s) = s"
| "str_value (SqlOther s) = s"

type_synonym row = "(string \<times> sqlval) list"

datatype prompt =
    SqlPrompt string int string
  | InterpretPrompt string "row list"
  | ClassifyPrompt string

datatype db_error = SQLAlchemyError string | OtherDbError string

record env =
  now_utc :: datetime
  api_key :: "string option"
  generate_content :: "nat \<Rightarrow> prompt \<Rightarrow> string + string"
  db_execute :: "nat \<Rightarrow> string \<Rightarrow> db_error + row list"

record world =
  llm_log :: "prompt list"
  db_log :: "string list"

definition call_model :: "env \<Rightarrow> prompt \<Rightarrow> world \<Rightarrow> (string + string) \<times> world" where
  "call_model E p w =
     (generate_content E (length (llm_log w)) p, w\<lparr>llm_log := llm_log w @ [p]\<rparr>)"

definition call_db :: "env \<Rightarrow> string \<Rightarrow> world \<Rightarrow> (db_error + row list) \<times> world" where
  "call_db E q w =
     (db_execute E (length (db_log w)) q, w\<lparr>db_log := db_log w @ [q]\<rparr>)"

section \<open>\<open>bot/services/analytics_service.py\<close>\<close>

definition REFUSAL :: string where
  "REFUSAL =
     [CHR 0xE2, CHR 0x9B, CHR 0x94] @
     '' Lo siento, soy un analista de datos y solo puedo **leer y consultar** tu informaci''
     @ [CHR 0xC3, CHR 0xB3] @
     ''n. Para borrar datos, por favor usa los comandos manuales o el men''
     @ [CHR 0xC3, CHR 0xBA] @ ''.''"

definition destructive_keywords :: "string list" where
  "destructive_keywords =
     [''borrar'', ''eliminar'', ''delete'', ''drop'',
      ''cambiar'', ''actualizar'', ''update'', ''modificar'',
      ''limpiar'', ''vaciar'', ''truncate'', ''clear'',
      ''remover'', ''quitar'', ''remove'']"

definition has_destructive_intent :: "string \<Rightarrow> bool" where
  "has_destructive_intent question =
     (let question_lower = lower question
      in list_ex (\<lambda>keyword. py_in keyword question_lower) destructive_keywords)"

definition dangerous_keywords :: "string list" where
  "dangerous_keywords =
     [''DROP'', ''DELETE'', ''INSERT'', ''UPDATE'', ''TRUNCATE'',
      ''ALTER'', ''CREATE'', ''GRANT'', ''REVOKE'', ''EXEC'', ''EXECUTE'',
      ''MERGE'', ''COPY'', ''CALL'', ''COMMIT'', ''ROLLBACK'']"

definition dangerous_functions :: "string list" where
  "dangerous_functions = [''PG_'', ''EXEC'', ''EXECUTE'']"

definition validate_sql_safety :: "string \<Rightarrow> bool \<times> string option" where
  "validate_sql_safety sql_query =
     (let sql_upper = strip (upper sql_query)
      in if \<not> startswith sql_upper ''SELECT''
           then (False, Some ''La consulta debe ser solo SELECT'')
         else
           (case List.find (\<lambda>keyword. py_in keyword sql_upper) dangerous_keywords of
              Some keyword \<Rightarrow> (False, Some (''No se permiten operaciones '' @ keyword))
            | None \<Rightarrow>
                if py_in '';'' sql_query
                  then (False, Some (''No se permiten m'' @ [CHR 0xC3, CHR 0xBA]
                                       @ ''ltiples consultas''))
                else
                  (case List.find (\<lambda>func_pattern. py_in func_pattern sql_upper)
                          dangerous_functions of
                     Some func_pattern \<Rightarrow>
                       (False, Some ''No se permiten llamadas a funciones del sistema'')
                   | None \<Rightarrow> (True, None))))"

definition execute_safe_query ::
    "env \<Rightarrow> string \<Rightarrow> int \<Rightarrow> world \<Rightarrow> (exn + row list) \<times> world" where
  "execute_safe_query E sql_query user_id w =
     (case validate_sql_safety sql_query of
        (False, error_message) \<Rightarrow>
          (Inl (ValueError (''Consulta SQL no segura: ''
                  @ (case error_message of None \<Rightarrow> ''None'' | Some m \<Rightarrow> m))), w)
      | (True, _) \<Rightarrow>
          (case call_db E sql_query w of
             (Inl (SQLAlchemyError m), w') \<Rightarrow>
               (Inl (RuntimeError (''Error ejecutando consulta: '' @ m)), w')
           | (Inl (OtherDbError m), w') \<Rightarrow>
               (Inl (RuntimeError (''Error inesperado: '' @ m)), w')
           | (Inr results, w') \<Rightarrow> (Inr results, w')))"

text \<open>The clean-up of the generated text: a fenced block is cut out, trailing semicolons go.\<close>

definition clean_sql :: "string \<Rightarrow> string" where
  "clean_sql text =
     (let q = strip text;
          q1 = (if py_in ''```sql'' (lower q) then
                  (let sql_start = nat (py_find (lower q) ''```sql'' 0 + 6);
                       sql_end = py_find (lower q) ''```'' sql_start
                   in strip (slice q sql_start sql_end))
                else if py_in ''```'' q then
                  (let sql_start = nat (py_find q ''```'' 0 + 3);
                       sql_end = py_find q ''```'' sql_start
                   in strip (slice q sql_start sql_end))
                else q)
      in strip (rstrip_chars '';'' q1))"

definition generate_sql :: "env \<Rightarrow> string \<Rightarrow> int \<Rightarrow> world \<Rightarrow> (exn + string) \<times> world" where
  "generate_sql E question user_id w =
     (case convert_utc_to_local (now_utc E) of
        Inl e \<Rightarrow> (Inl e, w)
      | Inr now_colombia \<Rightarrow>
          (case prev_day (dt_date now_colombia) of
             Inl e \<Rightarrow> (Inl e, w)
           | Inr yesterday \<Rightarrow>
               (case prev_day yesterday of
                  Inl e \<Rightarrow> (Inl e, w)
                | Inr day_before_yesterday \<Rightarrow>
                    (case call_model E
                            (SqlPrompt question user_id (strftime_ymd (dt_date now_colombia))) w of
                       (Inl m, w') \<Rightarrow>
                         (Inl (RuntimeError (''Error generando consulta SQL: '' @ m)), w')
                     | (Inr text, w') \<Rightarrow> (Inr (clean_sql text), w')))))"

definition is_marker :: "sqlval \<Rightarrow> bool" where
  "is_marker v \<longleftrightarrow> upper (str_value v) = ''ACTION_NOT_ALLOWED''"

text \<open>The chain \<open>.replace(",", "X").replace(".", ",").replace("X", ".")\<close>.\<close>

definition swap_separators :: "string \<Rightarrow> string" where
  "swap_separators s =
     replace_char CHR ''X'' ''.'' (replace_char CHR ''.'' '','' (replace_char CHR '','' ''X'' s))"

definition fallback_answer :: "row list \<Rightarrow> string" where
  "fallback_answer query_results =
     (case query_results of
        [] \<Rightarrow> ''No encontr'' @ [CHR 0xC3, CHR 0xA9] @ '' informaci'' @ [CHR 0xC3, CHR 0xB3]
               @ ''n para tu pregunta. '' @ [CHR 0xF0, CHR 0x9F, CHR 0x98, CHR 0x85]
      | first_result # _ \<Rightarrow>
          (case first_result of
             [(key, val)] \<Rightarrow>
               (case val of
                  SqlNum s f \<Rightarrow>
                    (case f of
                       Some t \<Rightarrow> swap_separators (''El resultado es: $'' @ t)
                     | None \<Rightarrow> ''Obtuve resultados pero no pude interpretarlos. Intenta reformular tu pregunta.'')
                | _ \<Rightarrow> ''El resultado es: '' @ str_value val)
           | _ \<Rightarrow> ''Encontr'' @ [CHR 0xC3, CHR 0xA9] @ '' '' @ str_nat (length query_results)
                   @ '' resultado(s). Usa /dashboard para ver m'' @ [CHR 0xC3, CHR 0xA1]
                   @ ''s detalles.''))"

definition interpret_results ::
    "env \<Rightarrow> string \<Rightarrow> row list \<Rightarrow> world \<Rightarrow> (exn + string) \<times> world" where
  "interpret_results E question query_results w =
     (if list_ex (\<lambda>result. list_ex (\<lambda>(k, v). is_marker v) result) query_results
        then (Inr REFUSAL, w)
      else
        (case call_model E (InterpretPrompt question query_results) w of
           (Inr text, w') \<Rightarrow> (Inr (strip text), w')
         | (Inl m, w') \<Rightarrow> (Inr (fallback_answer query_results), w')))"

text \<open>The body of the \<open>try\<close> block of \<open>answer_question\<close>.\<close>

definition answer_body :: "env \<Rightarrow> string \<Rightarrow> int \<Rightarrow> world \<Rightarrow> (exn + string) \<times> world" where
  "answer_body E question user_id w =
     (if has_destructive_intent question then (Inr REFUSAL, w)
      else
        (case generate_sql E question user_id w of
           (Inl e, w1) \<Rightarrow> (Inl e, w1)
         | (Inr sql_query, w1) \<Rightarrow>
             (let sql_upper = upper (strip sql_query)
              in if py_in ''ACTION_NOT_ALLOWED'' sql_upper
                    \<or> py_in (''SELECT '' @ [CHR 0x27] @ ''ACTION_NOT_ALLOWED'' @ [CHR 0x27])
                         sql_upper
                   then (Inr REFUSAL, w1)
                 else
                   (case execute_safe_query E sql_query user_id w1 of
                      (Inl e, w2) \<Rightarrow> (Inl e, w2)
                    | (Inr query_results, w2) \<Rightarrow>
                        if query_results \<noteq> []
                           \<and> list_ex (\<lambda>(k, v). is_marker v) (hd query_results)
                          then (Inr REFUSAL, w2)
                        else interpret_results E question query_results w2))))"

definition answer_question :: "env \<Rightarrow> string \<Rightarrow> int \<Rightarrow> world \<Rightarrow> (exn + string) \<times> world" where
  "answer_question E question user_id w =
     (if question = [] \<or> strip question = []
        then (Inl (ValueError ''Question cannot be empty''), w)
      else
        (case answer_body E question user_id w of
           (Inl (ValueError m), w') \<Rightarrow> (Inl (ValueError m), w')
         | (Inl e, w') \<Rightarrow>
             (Inl (RuntimeError (''Error procesando tu pregunta: '' @ exn_str e)), w')
         | (Inr response, w') \<Rightarrow> (Inr response, w')))"

section \<open>Decimal numbers (\<open>decimal.Decimal\<close>)\<close>

text \<open>
  A \<open>Decimal\<close> is a sign, a coefficient and an exponent, or one of the special values.  The
  sign and the payload of a NaN play no part in what follows and are left out.  The
  arithmetic context is the default one: 28 digits of precision, rounding half to even,
  and \<open>InvalidOperation\<close> trapped, so that every invalid operation raises.
\<close>

datatype decimal =
    Finite (neg: bool) (coeff: nat) (expo: int)
  | Infinity bool
  | QNaN
  | SNaN

definition ndigits :: "nat \<Rightarrow> nat" where
  "ndigits c = length (str_nat c)"

text \<open>
  \<open>Decimal(s)\<close> on a string: surrounding whitespace and all underscores are dropped, then
  the text must be an optional sign followed by digits with an optional fraction and an
  optional exponent, or by \<open>Inf\<close>, \<open>Infinity\<close>, \<open>NaN\<close> or \<open>sNaN\<close> (letters in any case,
  NaN with optional digits).  \<open>None\<close> stands for the \<open>InvalidOperation\<close> of a text that
  is no number.
\<close>

definition split_sign :: "string \<Rightarrow> bool \<times> string" where
  "split_sign s =
     (case s of
        c # r \<Rightarrow> (if c = CHR ''-'' then (True, r) else if c = CHR ''+'' then (False, r)
                   else (False, s))
      | [] \<Rightarrow> (False, s))"

definition parse_exponent :: "string \<Rightarrow> int option" where
  "parse_exponent r =
     (case r of
        [] \<Rightarrow> Some 0
      | c # r' \<Rightarrow>
          if c = CHR ''E'' then
            (case split_sign r' of
               (sg, ds) \<Rightarrow>
                 if ds \<noteq> [] \<and> list_all is_digit ds
                 then Some (if sg then - int (nat_of_digits ds) else int (nat_of_digits ds))
                 else None)
          else None)"

definition decimal_of_string :: "string \<Rightarrow> decimal option" where
  "decimal_of_string s =
     (case split_sign (filter (\<lambda>c. c \<noteq> CHR ''_'') (strip s)) of
        (sg, r) \<Rightarrow>
          (let u = upper r in
           if u = ''INF'' \<or> u = ''INFINITY'' then Some (Infinity sg)
           else if prefix ''NAN'' u \<and> list_all is_digit (drop 3 u) then Some QNaN
           else if prefix ''SNAN'' u \<and> list_all is_digit (drop 4 u) then Some SNaN
           else
             (let ip = takeWhile is_digit u;
                  r1 = dropWhile is_digit u;
                  fp = (if take 1 r1 = ''.'' then takeWhile is_digit (drop 1 r1) else []);
                  r2 = (if take 1 r1 = ''.'' then dropWhile is_digit (drop 1 r1) else r1)
              in if ip = [] \<and> fp = [] then None
                 else
                   (case parse_exponent r2 of
                      None \<Rightarrow> None
                    | Some e \<Rightarrow>
                        Some (Finite sg (nat_of_digits (ip @ fp)) (e - int (length fp)))))))"

text \<open>The comparisons \<open>d <= 0\<close> and \<open>d < 0\<close>; an ordering comparison with a NaN raises.\<close>

definition le_zero :: "decimal \<Rightarrow> exn + bool" where
  "le_zero d =
     (case d of
        Finite s c e \<Rightarrow> Inr (c = 0 \<or> s)
      | Infinity s \<Rightarrow> Inr s
      | QNaN \<Rightarrow> Inl (InvalidOperation ''comparison involving NaN'')
      | SNaN \<Rightarrow> Inl (InvalidOperation ''comparison involving sNaN''))"

definition lt_zero :: "decimal \<Rightarrow> exn + bool" where
  "lt_zero d =
     (case d of
        Finite s c e \<Rightarrow> Inr (c \<noteq> 0 \<and> s)
      | Infinity s \<Rightarrow> Inr s
      | QNaN \<Rightarrow> Inl (InvalidOperation ''comparison involving NaN'')
      | SNaN \<Rightarrow> Inl (InvalidOperation ''comparison involving sNaN''))"

text \<open>Unary minus, on the values it is applied to here.\<close>

definition negate :: "decimal \<Rightarrow> decimal" where
  "negate d =
     (case d of
        Finite s c e \<Rightarrow> Finite (c \<noteq> 0 \<and> \<not> s) c e
      | Infinity s \<Rightarrow> Infinity (\<not> s)
      | QNaN \<Rightarrow> QNaN
      | SNaN \<Rightarrow> SNaN)"

text \<open>Division by a power of ten with the remainder rounded half to even.\<close>

definition round_half_even :: "nat \<Rightarrow> nat \<Rightarrow> nat" where
  "round_half_even c p =
     (let q = c div p; r = c mod p
      in if 2 * r > p \<or> (2 * r = p \<and> odd q) then q + 1 else q)"

text \<open>
  \<open>d.quantize(Decimal("0.01"))\<close>.  A quiet NaN passes through; a signalling NaN and an
  infinity raise; a result that needs more than 28 digits raises.
\<close>

definition quantize_cents :: "decimal \<Rightarrow> exn + decimal" where
  "quantize_cents d =
     (case d of
        QNaN \<Rightarrow> Inr QNaN
      | SNaN \<Rightarrow> Inl (InvalidOperation ''sNaN'')
      | Infinity s \<Rightarrow> Inl (InvalidOperation ''quantize with one INF'')
      | Finite s c e \<Rightarrow>
          if c = 0 then Inr (Finite s 0 (- 2))
          else
            (let adjusted = e + int (ndigits c) - 1
             in if adjusted > 999999
                  then Inl (InvalidOperation ''exponent of quantize result too large for current context'')
                else if adjusted + 2 + 1 > 28
                  then Inl (InvalidOperation ''quantize result has too many digits for current context'')
                else
                  (let c' = (if e \<ge> - 2 then c * 10 ^ nat (e + 2)
                             else round_half_even c (10 ^ nat (- 2 - e)))
                   in if ndigits c' > 28
                        then Inl (InvalidOperation ''quantize result has too many digits for current context'')
                      else Inr (Finite s c' (- 2)))))"

text \<open>\<open>str(d)\<close>: plain notation while the exponent allows it, scientific notation otherwise.\<close>

definition str_decimal :: "decimal \<Rightarrow> string" where
  "str_decimal d =
     (case d of
        Infinity s \<Rightarrow> (if s then ''-'' else '''') @ ''Infinity''
      | QNaN \<Rightarrow> ''NaN''
      | SNaN \<Rightarrow> ''sNaN''
      | Finite s c e \<Rightarrow>
          (let ds = str_nat c;
               leftdigits = e + int (length ds);
               dotplace = (if e \<le> 0 \<and> leftdigits > - 6 then leftdigits else 1);
               intpart = (if dotplace \<le> 0 then ''0''
                          else if dotplace \<ge> int (length ds)
                            then ds @ replicate (nat dotplace - length ds) CHR ''0''
                          else take (nat dotplace) ds);
               fracpart = (if dotplace \<le> 0 then ''.'' @ replicate (nat (- dotplace)) CHR ''0'' @ ds
                           else if dotplace \<ge> int (length ds) then ''''
                           else ''.'' @ drop (nat dotplace) ds);
               ex = (if leftdigits = dotplace then ''''
                     else ''E'' @ (if leftdigits - dotplace \<ge> 0 then ''+'' else '''')
                            @ str_int (leftdigits - dotplace))
           in (if s then ''-'' else '''') @ intpart @ fracpart @ ex))"

text \<open>A value above zero.\<close>

definition decimal_positive :: "decimal \<Rightarrow> bool" where
  "decimal_positive d \<longleftrightarrow> (case d of Finite s c e \<Rightarrow> c \<noteq> 0 \<and> \<not> s | Infinity s \<Rightarrow> \<not> s | _ \<Rightarrow> False)"

section \<open>\<open>bot/utils/amounts.py\<close>\<close>

definition parse_amount :: "string \<Rightarrow> exn + decimal" where
  "parse_amount val =
     (let normalized = strip (replace_char CHR '','' ''.'' val)
      in case decimal_of_string normalized of
           None \<Rightarrow> Inl (InvalidOperation ''ConversionSyntax'')
         | Some amount \<Rightarrow>
             (case le_zero amount of
                Inl e \<Rightarrow> Inl e
              | Inr True \<Rightarrow> Inl (InvalidOperation ''Amount must be positive.'')
              | Inr False \<Rightarrow> quantize_cents amount))"

text \<open>
  The argument of \<open>format_currency\<close>: \<open>None\<close>, a \<open>Decimal\<close>, or a \<open>float\<close> or \<open>int\<close> given by
  the text \<open>str(amount)\<close> returns for it.
\<close>

datatype amount_arg = ArgNone | ArgDecimal decimal | ArgNumber string

text \<open>The loop that inserts a dot before every third digit, counted from the right.\<close>

fun group_loop :: "nat \<Rightarrow> string \<Rightarrow> string \<Rightarrow> string" where
  "group_loop i [] formatted_integer = formatted_integer"
| "group_loop i (digit # rest) formatted_integer =
     group_loop (Suc i) rest
       (digit # (if i > 0 \<and> i mod 3 = 0 then CHR ''.'' # formatted_integer
                 else formatted_integer))"

definition ljust2 :: "string \<Rightarrow> string" where
  "ljust2 s = take 2 (s @ replicate (2 - length s) CHR ''0'')"

definition format_currency :: "amount_arg \<Rightarrow> exn + string" where
  "format_currency amount =
     (let converted =
            (case amount of
               ArgNone \<Rightarrow> Some (Finite False 0 0)
             | ArgDecimal d \<Rightarrow> Some d
             | ArgNumber s \<Rightarrow> decimal_of_string s);
          quantized =
            (case converted of
               None \<Rightarrow> Finite False 0 0
             | Some d \<Rightarrow> (case quantize_cents d of Inl e \<Rightarrow> Finite False 0 0 | Inr q \<Rightarrow> q))
      in case lt_zero quantized of
           Inl e \<Rightarrow> Inl e
         | Inr is_negative \<Rightarrow>
             (let quantized' = (if is_negative then negate quantized else quantized);
                  amount_str = str_decimal quantized';
                  integer_part = takeWhile (\<lambda>c. c \<noteq> CHR ''.'') amount_str;
                  decimal_part = (if py_in ''.'' amount_str
                                  then drop (Suc (length integer_part)) amount_str else ''00'');
                  formatted_integer = group_loop 0 (rev integer_part) [];
                  sign = (if is_negative then ''-'' else '''')
              in Inr (sign @ ''$'' @ formatted_integer @ '','' @ ljust2 decimal_part)))"

section \<open>\<open>bot/handlers/natural_language.py\<close>\<close>

text \<open>
  \<open>_process_ai_date\<close>.  The clock \<open>get_now_utc()\<close> is the field \<open>now_utc\<close> of the
  environment.  Only a \<open>ValueError\<close> is caught; the fallback is the clock and its date.
\<close>

definition process_ai_date :: "env \<Rightarrow> string \<Rightarrow> exn + datetime \<times> date" where
  "process_ai_date E date_str =
     (let fallback = Inr (now_utc E, dt_date (now_utc E))
      in case strptime_ymd date_str of
           Inl (ValueError m) \<Rightarrow> fallback
         | Inl e \<Rightarrow> Inl e
         | Inr ai_date \<Rightarrow>
             (case convert_utc_to_local (now_utc E) of
                Inl (ValueError m) \<Rightarrow> fallback
              | Inl e \<Rightarrow> Inl e
              | Inr now_colombia \<Rightarrow>
                  (let today_colombia = dt_date now_colombia
                   in if ai_date = today_colombia
                        then Inr (now_utc E, ai_date)
                      else Inr (DateTime ai_date 12 0 0 0 (Some 0), ai_date))))"

text \<open>
  The reading of the specification for the other branch: the calendar date at noon of the
  local zone, expressed in UTC.
\<close>

definition spec_local_noon_in_utc :: "date \<Rightarrow> exn + datetime" where
  "spec_local_noon_in_utc d = astimezone 0 (DateTime d 12 0 0 0 (Some bogota_offset))"

text \<open>
  \<open>_classify_intent\<close>.  An unset or empty \<open>GEMINI_API_KEY\<close> raises before the \<open>try\<close>;
  configuring the client and building the model object call nothing.
\<close>

definition clean_label :: "string \<Rightarrow> string" where
  "clean_label response_text =
     strip (replace_char (CHR 0x27) [] (replace_char (CHR 0x22) [] (lower (strip response_text))))"

definition classify_intent :: "env \<Rightarrow> string \<Rightarrow> world \<Rightarrow> (exn + string) \<times> world" where
  "classify_intent E text w =
     (if api_key E = None \<or> api_key E = Some []
        then (Inl (RuntimeError ''GEMINI_API_KEY not configured''), w)
      else
        (case call_model E (ClassifyPrompt text) w of
           (Inl m, w') \<Rightarrow> (Inr ''query'', w')
         | (Inr response_text, w') \<Rightarrow>
             (let classification = clean_label response_text
              in if classification \<notin> set [''register'', ''query'']
                   then (Inr ''query'', w')
                 else (Inr classification, w'))))"


section \<open>\<open>bot/services/ai_service.py\<close>\<close>

text \<open>
  A value of the parsed JSON object.  A \<open>float\<close> is given by what \<open>str\<close> and \<open>int\<close> return
  for it; a list or an object by its \<open>str\<close>.
\<close>

datatype json =
    JNull
  | JBool bool
  | JInt int
  | JFloat (float_str: string) (float_int: "exn + int")
  | JStr string
  | JOther string

fun py_str :: "json \<Rightarrow> string" where
  "py_str JNull = ''None''"
| "py_str (JBool b) = (if b then ''True'' else ''False'')"
| "py_str (JInt i) = str_int i"
| "py_str (JFloat s t) = s"
| "py_str (JStr s) = s"
| "py_str (JOther s) = s"

text \<open>
  \<open>int(s)\<close> on a string: whitespace stripped, an optional sign, then digits, where single
  underscores may separate digits.
\<close>

fun int_body_ok :: "string \<Rightarrow> bool" where
  "int_body_ok [] = False"
| "int_body_ok [c] = is_digit c"
| "int_body_ok (c # d # r) =
     (is_digit c \<and> (if d = CHR ''_'' then int_body_ok r else int_body_ok (d # r)))"

definition int_of_string :: "string \<Rightarrow> exn + int" where
  "int_of_string s =
     (case split_sign (strip s) of
        (sg, body) \<Rightarrow>
          if int_body_ok body
          then (let n = int (nat_of_digits (filter (\<lambda>c. c \<noteq> CHR ''_'') body))
                in Inr (if sg then - n else n))
          else Inl (ValueError (''invalid literal for int() with base 10: '' @ s)))"

fun py_int :: "json \<Rightarrow> exn + int" where
  "py_int JNull = Inl (TypeError ''int() argument must be a string or a number'')"
| "py_int (JBool b) = Inr (if b then 1 else 0)"
| "py_int (JInt i) = Inr i"
| "py_int (JFloat s t) = t"
| "py_int (JStr s) = int_of_string s"
| "py_int (JOther s) = Inl (TypeError ''int() argument must be a string or a number'')"

datatype CategoryType = INCOME | EXPENSE

fun category_type_value :: "CategoryType \<Rightarrow> string" where
  "category_type_value INCOME = ''income''"
| "category_type_value EXPENSE = ''expense''"

record Category =
  cat_id :: int
  cat_user_id :: int
  cat_name :: string
  cat_type :: CategoryType
  is_default :: bool

record extraction =
  ex_amount :: decimal
  ex_category_id :: int
  ex_description :: string
  ex_type :: string
  ex_date :: string

text \<open>\<open>today - timedelta(days=n)\<close>: \<open>n\<close> steps back in the calendar.\<close>

fun minus_days :: "date \<Rightarrow> nat \<Rightarrow> exn + date" where
  "minus_days d 0 = Inr d"
| "minus_days d (Suc n) = (case prev_day d of Inl e \<Rightarrow> Inl e | Inr p \<Rightarrow> minus_days p n)"

text \<open>The steps of \<open>_validate_and_normalize_response\<close>, in the order of the source.\<close>

definition required_fields :: "string list" where
  "required_fields = [''amount'', ''category_id'', ''type'', ''description'', ''date'']"

definition check_required :: "(string \<rightharpoonup> json) \<Rightarrow> exn + unit" where
  "check_required parsed =
     (case List.find (\<lambda>field. parsed field = None) required_fields of
        Some field \<Rightarrow> Inl (ValueError (''AI response missing required field: '' @ field))
      | None \<Rightarrow> Inr ())"

definition check_amount :: "json \<Rightarrow> exn + decimal" where
  "check_amount v =
     (let inner =
            (case decimal_of_string (py_str v) of
               None \<Rightarrow> Inl (InvalidOperation ''ConversionSyntax'')
             | Some amount \<Rightarrow>
                 (case le_zero amount of
                    Inl e \<Rightarrow> Inl e
                  | Inr True \<Rightarrow> Inl (ValueError ''Amount must be positive'')
                  | Inr False \<Rightarrow> quantize_cents amount))
      in case inner of
           Inl (InvalidOperation m) \<Rightarrow> Inl (ValueError (''Invalid amount in AI response: '' @ m))
         | Inl (ValueError m) \<Rightarrow> Inl (ValueError (''Invalid amount in AI response: '' @ m))
         | Inl (TypeError m) \<Rightarrow> Inl (ValueError (''Invalid amount in AI response: '' @ m))
         | Inl e \<Rightarrow> Inl e
         | Inr amount \<Rightarrow> Inr amount)"

definition check_category :: "json \<Rightarrow> Category list \<Rightarrow> exn + int \<times> Category" where
  "check_category v categories =
     (case py_int v of
        Inl e \<Rightarrow> Inl e
      | Inr category_id \<Rightarrow>
          (case List.find (\<lambda>c. cat_id c = category_id) categories of
             None \<Rightarrow> Inl (ValueError (''Category ID '' @ str_int category_id
                                        @ '' not found in user's categories''))
           | Some category \<Rightarrow> Inr (category_id, category)))"

definition check_type :: "json \<Rightarrow> int \<Rightarrow> Category \<Rightarrow> exn + string" where
  "check_type v category_id category =
     (let transaction_type = lower (py_str v)
      in if transaction_type \<notin> set [''expense'', ''income'']
           then Inl (ValueError (''Invalid type: '' @ transaction_type
                                  @ ''. Must be 'expense' or 'income'' @ [CHR 0x27]))
         else
           (let expected_category_type =
                  (if transaction_type = ''expense'' then EXPENSE else INCOME)
            in if cat_type category \<noteq> expected_category_type
                 then Inl (ValueError (''Category '' @ cat_name category @ '' (ID: ''
                                        @ str_int category_id @ '') is of type ''
                                        @ category_type_value (cat_type category)
                                        @ '', but transaction type is '' @ transaction_type))
               else Inr transaction_type))"

definition check_date :: "date \<Rightarrow> json \<Rightarrow> exn + string" where
  "check_date today v =
     (let date_str = strip (py_str v);
          inner =
            (case fromisoformat date_str of
               Inl e \<Rightarrow> Inl e
             | Inr parsed_date \<Rightarrow>
                 if date_less today parsed_date
                   then Inl (ValueError (''Date '' @ date_str @ '' is in the future''))
                 else
                   (case minus_days today 3650 of
                      Inl e \<Rightarrow> Inl e
                    | Inr limit \<Rightarrow>
                        if date_less parsed_date limit
                          then Inl (ValueError (''Date '' @ date_str @ '' is too far in the past''))
                        else Inr (strftime_ymd parsed_date)))
      in case inner of
           Inl (ValueError m) \<Rightarrow>
             if py_in ''Invalid isoformat'' m \<or> py_in ''does not match format'' m
               then Inl (ValueError (''Invalid date format: '' @ date_str
                                      @ ''. Expected YYYY-MM-DD format''))
             else Inl (ValueError m)
         | Inl e \<Rightarrow> Inl e
         | Inr s \<Rightarrow> Inr s)"

text \<open>
  \<open>_validate_and_normalize_response(parsed, categories)\<close>; \<open>today\<close> is the reading of
  \<open>date.today()\<close>.
\<close>

definition validate_and_normalize_response ::
    "date \<Rightarrow> (string \<rightharpoonup> json) \<Rightarrow> Category list \<Rightarrow> exn + extraction" where
  "validate_and_normalize_response today parsed categories =
     (case check_required parsed of
        Inl e \<Rightarrow> Inl e
      | Inr _ \<Rightarrow>
          (case check_amount (the (parsed ''amount'')) of
             Inl e \<Rightarrow> Inl e
           | Inr amount \<Rightarrow>
               (case check_category (the (parsed ''category_id'')) categories of
                  Inl e \<Rightarrow> Inl e
                | Inr (category_id, category) \<Rightarrow>
                    (case check_type (the (parsed ''type'')) category_id category of
                       Inl e \<Rightarrow> Inl e
                     | Inr transaction_type \<Rightarrow>
                         (case check_date today (the (parsed ''date'')) of
                            Inl e \<Rightarrow> Inl e
                          | Inr date_str \<Rightarrow>
                              Inr \<lparr>ex_amount = amount,
                                   ex_category_id = category_id,
                                   ex_description = strip (py_str (the (parsed ''description''))),
                                   ex_type = transaction_type,
                                   ex_date = date_str\<rparr>)))))"

text \<open>The text of the date field, as the date step reads it.\<close>

definition date_text :: "(string \<rightharpoonup> json) \<Rightarrow> string" where
  "date_text parsed = strip (py_str (the (parsed ''date'')))"

section \<open>A concrete environment\<close>

text \<open>One environment and one world on which the statements below are evaluated.\<close>

definition demo_env :: env where
  "demo_env =
     \<lparr>now_utc = DateTime (Date 2025 6 15) 15 30 0 0 (Some 0),
      api_key = Some ''key'',
      generate_content = (\<lambda>n p. Inr ''SELECT 1''),
      db_execute = (\<lambda>n q. Inr [])\<rparr>"

definition empty_world :: world where
  "empty_world = \<lparr>llm_log = [], db_log = []\<rparr>"

text \<open>The same at 03:10 UTC of the next day, when it is still the 15th in Bogota.\<close>

definition demo_env_late :: env where
  "demo_env_late = demo_env\<lparr>now_utc := DateTime (Date 2025 6 16) 3 10 5 123 (Some 0)\<rparr>"

text \<open>A model that answers with a quoted label, one that fails, and a missing key.\<close>

definition demo_env_register :: env where
  "demo_env_register = demo_env\<lparr>generate_content := (\<lambda>n p. Inr '' 'Register' '')\<rparr>"



text \<open>Two categories, and a model answer for a given category id and date.\<close>

definition demo_categories :: "Category list" where
  "demo_categories =
     [\<lparr>cat_id = 1, cat_user_id = 7, cat_name = ''Comida'', cat_type = EXPENSE, is_default = True\<rparr>,
      \<lparr>cat_id = 2, cat_user_id = 7, cat_name = ''Salario'', cat_type = INCOME, is_default = True\<rparr>]"

definition demo_parsed :: "int \<Rightarrow> string \<Rightarrow> (string \<rightharpoonup> json)" where
  "demo_parsed category_id date_str =
     map_of [(''amount'', JInt 20000), (''category_id'', JInt category_id),
             (''type'', JStr ''Expense''), (''description'', JStr '' almuerzo ''),
             (''date'', JStr date_str)]"

definition demo_today :: date where
  "demo_today = Date 2025 6 15"

section \<open>Properties of strings\<close>

lemma py_in_iff: "py_in k s \<longleftrightarrow> (\<exists>p q. s = p @ k @ q)"
proof (induction s)
  case Nil
  then show ?case by auto
next
  case (Cons c cs)
  show ?case
  proof
    assume "py_in k (c # cs)"
    then consider "prefix k (c # cs)" | "py_in k cs" by auto
    then show "\<exists>p q. c # cs = p @ k @ q"
    proof cases
      case 1
      then obtain q where "c # cs = k @ q" by (auto simp: prefix_def)
      then have "c # cs = [] @ k @ q" by simp
      then show ?thesis by blast
    next
      case 2
      with Cons.IH obtain p q where "cs = p @ k @ q" by blast
      then have "c # cs = (c # p) @ k @ q" by simp
      then show ?thesis by blast
    qed
  next
    assume "\<exists>p q. c # cs = p @ k @ q"
    then obtain p q where pq: "c # cs = p @ k @ q" by blast
    show "py_in k (c # cs)"
    proof (cases p)
      case Nil
      with pq have "prefix k (c # cs)" by (simp add: prefix_def)
      then show ?thesis by simp
    next
      case (Cons a p')
      with pq have "cs = p' @ k @ q" by simp
      with Cons.IH have "py_in k cs" by blast
      then show ?thesis by simp
    qed
  qed
qed












lemma strip_eq_Nil_iff: "strip s = [] \<longleftrightarrow> (\<forall>c\<in>set s. is_space c)"
proof -
  have "strip s = [] \<longleftrightarrow> (\<forall>c\<in>set (dropWhile is_space s). is_space c)"
    by (simp add: strip_def rstrip_def lstrip_def dropWhile_eq_Nil_conv)
  also have "\<dots> \<longleftrightarrow> dropWhile is_space s = []"
    by (metis hd_dropWhile hd_in_set empty_iff list.set(1))
  also have "\<dots> \<longleftrightarrow> (\<forall>c\<in>set s. is_space c)"
    by (simp add: dropWhile_eq_Nil_conv)
  finally show ?thesis .
qed

lemma map_of_zip_dom: "map_of (zip ks vs) c = Some d \<Longrightarrow> c \<in> set ks"
  by (meson map_of_SomeD set_zip_leftD)

lemma lower_char_cases: "lower_char c = c \<or> c \<in> set ''ABCDEFGHIJKLMNOPQRSTUVWXYZ''"
proof (cases "map_of (zip ''ABCDEFGHIJKLMNOPQRSTUVWXYZ'' ''abcdefghijklmnopqrstuvwxyz'') c")
  case None
  then show ?thesis unfolding lower_char_def by (simp only: option.case simp_thms)
next
  case (Some d)
  then have "c \<in> set ''ABCDEFGHIJKLMNOPQRSTUVWXYZ''" by (rule map_of_zip_dom)
  then show ?thesis ..
qed

lemma space_not_upper_letter: "is_space c \<Longrightarrow> c \<notin> set ''ABCDEFGHIJKLMNOPQRSTUVWXYZ''"
  unfolding is_space_def by auto

lemma lower_char_space: "is_space c \<Longrightarrow> lower_char c = c"
  using lower_char_cases space_not_upper_letter by blast

lemma destructive_keyword_shape:
  "k \<in> set destructive_keywords \<Longrightarrow> k \<noteq> [] \<and> \<not> is_space (hd k)"
  by (auto simp: destructive_keywords_def is_space_def)

lemma keyword_question_not_blank:
  assumes "k \<in> set destructive_keywords" and "py_in k (lower question)"
  shows "question \<noteq> [] \<and> strip question \<noteq> []"
proof -
  from assms(2) obtain p q where pq: "lower question = p @ k @ q" by (auto simp: py_in_iff)
  from destructive_keyword_shape[OF assms(1)] have k: "k \<noteq> []" "\<not> is_space (hd k)" by auto
  then have "hd k \<in> set (lower question)" using pq by (cases k) auto
  then obtain c where c: "c \<in> set question" "hd k = lower_char c" by (auto simp: lower_def)
  have "\<not> is_space c"
  proof
    assume "is_space c"
    then have "lower_char c = c" by (rule lower_char_space)
    with c k \<open>is_space c\<close> show False by simp
  qed
  with c have "\<not> (\<forall>c\<in>set question. is_space c)" by blast
  then have "strip question \<noteq> []" by (simp add: strip_eq_Nil_iff)
  moreover from c have "question \<noteq> []" by auto
  ultimately show ?thesis by simp
qed


section \<open>The safe-query gate\<close>



text \<open>The database log grows by exactly the queries that pass the validation.\<close>

lemma execute_safe_query_db_log:
  "db_log (snd (execute_safe_query E sql_query user_id w)) =
     (if fst (validate_sql_safety sql_query) then db_log w @ [sql_query] else db_log w)"
  by (auto simp: execute_safe_query_def call_db_def split: prod.splits sum.splits db_error.splits bool.splits)

section \<open>The destructive-intent filter\<close>

text \<open>
  Claim C2.  A question whose lowercased text contains a keyword of the destructive-intent
  list (such a question is never blank) makes \<open>answer_question\<close> return the fixed refusal
  string; the world is returned as it was, so the model was not called.
\<close>

theorem destructive_question_refused_without_model_call:
  assumes "\<exists>k\<in>set destructive_keywords. py_in k (lower question)"
  shows "answer_question E question user_id w = (Inr REFUSAL, w)"
proof -
  from assms obtain k where k: "k \<in> set destructive_keywords" "py_in k (lower question)" by blast
  then have nb: "question \<noteq> []" "strip question \<noteq> []"
    using keyword_question_not_blank by blast+
  from k have "has_destructive_intent question"
    by (auto simp: has_destructive_intent_def list_ex_iff)
  then have "answer_body E question user_id w = (Inr REFUSAL, w)"
    by (simp add: answer_body_def)
  with nb show ?thesis by (simp add: answer_question_def)
qed

theorem destructive_question_refused_without_model_call_witness:
  "(\<exists>k\<in>set destructive_keywords. py_in k (lower ''Quiero BORRAR todo''))
   \<and> answer_question demo_env ''Quiero BORRAR todo'' 7 empty_world = (Inr REFUSAL, empty_world)"
proof -
  have m: "''borrar'' \<in> set destructive_keywords" by (simp add: destructive_keywords_def)
  have "py_in ''borrar'' (lower ''Quiero BORRAR todo'')" by code_simp
  with m have h: "\<exists>k\<in>set destructive_keywords. py_in k (lower ''Quiero BORRAR todo'')" by blast
  from destructive_question_refused_without_model_call [OF h, of demo_env 7 empty_world] h
  show ?thesis by blast
qed



section \<open>Date resolution\<close>

lemma strptime_demo_15: "strptime_ymd ''2025-06-15'' = Inr (Date 2025 6 15)"
  by (simp add: strptime_ymd_def Let_def month_token_def day_token_def is_digit_def
        nat_of_digits_def digit_val_def make_date_def days_in_month_def is_leap_def)

lemma strptime_demo_14: "strptime_ymd ''2025-06-14'' = Inr (Date 2025 6 14)"
  by (simp add: strptime_ymd_def Let_def month_token_def day_token_def is_digit_def
        nat_of_digits_def digit_val_def make_date_def days_in_month_def is_leap_def)

lemma local_demo: "convert_utc_to_local (now_utc demo_env)
    = Inr (DateTime (Date 2025 6 15) 10 30 0 0 (Some (- 300)))"
  by (simp add: convert_utc_to_local_def demo_env_def astimezone_def bogota_offset_def Let_def)

lemma local_demo_late: "convert_utc_to_local (now_utc demo_env_late)
    = Inr (DateTime (Date 2025 6 15) 22 10 5 123 (Some (- 300)))"
  by (simp add: convert_utc_to_local_def demo_env_late_def demo_env_def astimezone_def
        bogota_offset_def Let_def prev_day_def)

text \<open>
  Claim C4.  When the date string parses and is today's date in Bogota, \<open>_process_ai_date\<close>
  returns the clock reading itself as the instant to store.
\<close>

theorem today_keeps_exact_instant:
  assumes "strptime_ymd date_str = Inr ai_date"
    and "convert_utc_to_local (now_utc E) = Inr now_colombia"
    and "ai_date = dt_date now_colombia"
  shows "process_ai_date E date_str = Inr (now_utc E, ai_date)"
  using assms by (simp add: process_ai_date_def)

theorem today_keeps_exact_instant_witness:
  "process_ai_date demo_env_late ''2025-06-15''
     = Inr (DateTime (Date 2025 6 16) 3 10 5 123 (Some 0), Date 2025 6 15)"
proof -
  have "process_ai_date demo_env_late ''2025-06-15'' = Inr (now_utc demo_env_late, Date 2025 6 15)"
    by (rule today_keeps_exact_instant [OF strptime_demo_15 local_demo_late]) simp
  then show ?thesis by (simp add: demo_env_late_def demo_env_def)
qed

text \<open>
  Claim C5, as the code has it.  When the date string parses and is not today's date in
  Bogota, the instant to store is that date at 12:00:00 UTC.
\<close>

theorem other_day_is_noon_utc:
  assumes "strptime_ymd date_str = Inr ai_date"
    and "convert_utc_to_local (now_utc E) = Inr now_colombia"
    and "ai_date \<noteq> dt_date now_colombia"
  shows "process_ai_date E date_str = Inr (DateTime ai_date 12 0 0 0 (Some 0), ai_date)"
  using assms by (simp add: process_ai_date_def)

theorem other_day_is_noon_utc_witness:
  "process_ai_date demo_env ''2025-06-14''
     = Inr (DateTime (Date 2025 6 14) 12 0 0 0 (Some 0), Date 2025 6 14)"
  by (rule other_day_is_noon_utc [OF strptime_demo_14 local_demo]) simp

text \<open>
  Noon UTC is not noon in Bogota: for 2025-06-14 the code stores 12:00 UTC, while local
  noon expressed in UTC is 17:00.
\<close>

theorem local_noon_counterexample:
  "map_sum id fst (process_ai_date demo_env ''2025-06-14'')
     = Inr (DateTime (Date 2025 6 14) 12 0 0 0 (Some 0))
   \<and> spec_local_noon_in_utc (Date 2025 6 14)
     = Inr (DateTime (Date 2025 6 14) 17 0 0 0 (Some 0))
   \<and> map_sum id fst (process_ai_date demo_env ''2025-06-14'')
     \<noteq> spec_local_noon_in_utc (Date 2025 6 14)"
proof -
  have 1: "process_ai_date demo_env ''2025-06-14''
     = Inr (DateTime (Date 2025 6 14) 12 0 0 0 (Some 0), Date 2025 6 14)"
    using strptime_demo_14 local_demo by (simp add: process_ai_date_def)
  have 2: "spec_local_noon_in_utc (Date 2025 6 14)
     = Inr (DateTime (Date 2025 6 14) 17 0 0 0 (Some 0))"
    by (simp add: spec_local_noon_in_utc_def astimezone_def bogota_offset_def Let_def)
  show ?thesis by (simp add: 1 2)
qed

text \<open>A string that is no date falls back to the clock and its date.\<close>

lemma process_ai_date_bad_format:
  "strptime_ymd date_str = Inl (ValueError m) \<Longrightarrow>
   process_ai_date E date_str = Inr (now_utc E, dt_date (now_utc E))"
  by (simp add: process_ai_date_def)

section \<open>Intent classification\<close>

lemma classify_intent_cases:
  assumes "api_key E \<noteq> None" and "api_key E \<noteq> Some []"
  shows "fst (classify_intent E text w) =
           (case generate_content E (length (llm_log w)) (ClassifyPrompt text) of
              Inl m \<Rightarrow> Inr ''query''
            | Inr r \<Rightarrow> if clean_label r = ''register'' then Inr ''register'' else Inr ''query'')"
  using assms by (auto simp: classify_intent_def call_model_def Let_def split: sum.splits)

lemma classify_intent_raises_iff:
  "(\<exists>e. fst (classify_intent E text w) = Inl e) \<longleftrightarrow> (api_key E = None \<or> api_key E = Some [])"
  by (auto simp: classify_intent_def call_model_def Let_def split: sum.splits)



lemma demo_label_register: "clean_label '' 'Register' '' = ''register''"
  by (simp add: clean_label_def strip_def lstrip_def rstrip_def is_space_def lower_def
        lower_char_def replace_char_def)


lemma classify_register_demo:
  "fst (classify_intent demo_env_register ''Gaste 20k en almuerzo'' empty_world) = Inr ''register''"
  by (simp add: classify_intent_cases demo_env_register_def demo_env_def demo_label_register)

section \<open>Amounts\<close>

lemma quantize_cents_error:
  "quantize_cents d = Inl e \<Longrightarrow> \<exists>m. e = InvalidOperation m"
  by (auto simp: quantize_cents_def Let_def split: decimal.splits if_splits)

lemma quantize_cents_result:
  "quantize_cents d = Inr q \<Longrightarrow> q = QNaN \<or> (\<exists>c. q = Finite (neg d) c (- 2) \<and> d \<noteq> QNaN)"
  by (auto simp: quantize_cents_def Let_def split: decimal.splits if_splits)

lemma le_zero_error: "le_zero d = Inl e \<Longrightarrow> \<exists>m. e = InvalidOperation m"
  by (auto simp: le_zero_def split: decimal.splits)

lemma parse_amount_error: "parse_amount s = Inl e \<Longrightarrow> \<exists>m. e = InvalidOperation m"
  by (auto simp: parse_amount_def Let_def split: option.splits sum.splits bool.splits
        dest: quantize_cents_error le_zero_error)

text \<open>
  What \<open>parse_amount\<close> guarantees: it fails on a text that is no number and on a value that
  is zero or below, and a value it returns has two decimal places and no sign.
\<close>

lemma parse_amount_rejects:
  "decimal_of_string (strip (replace_char CHR '','' ''.'' s)) = None \<Longrightarrow>
     parse_amount s = Inl (InvalidOperation ''ConversionSyntax'')"
  "decimal_of_string (strip (replace_char CHR '','' ''.'' s)) = Some (Finite sg c e) \<Longrightarrow>
     c = 0 \<or> sg \<Longrightarrow> parse_amount s = Inl (InvalidOperation ''Amount must be positive.'')"
  by (auto simp: parse_amount_def Let_def le_zero_def)

lemma parse_amount_two_places:
  assumes "parse_amount s = Inr d"
  shows "\<exists>c. d = Finite False c (- 2)"
proof -
  from assms obtain a where a: "decimal_of_string (strip (replace_char CHR '','' ''.'' s)) = Some a"
    "le_zero a = Inr False" "quantize_cents a = Inr d"
    by (auto simp: parse_amount_def Let_def split: option.splits sum.splits bool.splits)
  from a(2) have "a \<noteq> QNaN" "a \<noteq> SNaN" by (auto simp: le_zero_def)
  with a(2,3) show ?thesis
    by (cases a) (auto simp: le_zero_def quantize_cents_def Let_def split: if_splits)
qed

lemma decimal_of_string_demo: "decimal_of_string ''0.001'' = Some (Finite False 1 (- 3))"
  by (simp add: decimal_of_string_def split_sign_def strip_def lstrip_def rstrip_def is_space_def
        upper_def upper_char_def is_digit_def parse_exponent_def nat_of_digits_def digit_val_def Let_def)

text \<open>
  Claim C6 fails on the code.  The check \<open>amount <= 0\<close> comes before the rounding, so a
  positive amount below half a cent is accepted and returned as \<open>0.00\<close>.
\<close>

theorem parse_amount_rounds_to_zero:
  "parse_amount ''0.001'' = Inr (Finite False 0 (- 2))
   \<and> \<not> decimal_positive (Finite False 0 (- 2))"
proof -
  have n: "strip (replace_char CHR '','' ''.'' ''0.001'') = ''0.001''"
    by (simp add: replace_char_def strip_def lstrip_def rstrip_def is_space_def)
  have q: "quantize_cents (Finite False 1 (- 3)) = Inr (Finite False 0 (- 2))"
    by (simp add: quantize_cents_def ndigits_def round_half_even_def Let_def digit_char_def)
  show ?thesis
    by (simp add: parse_amount_def n decimal_of_string_demo le_zero_def q decimal_positive_def
          del: One_nat_def)
qed

section \<open>Currency formatting\<close>

lemma quantize_cents_result2:
  "quantize_cents d = Inr q \<Longrightarrow> (q = QNaN \<and> d = QNaN) \<or> (\<exists>s c. q = Finite s c (- 2))"
  by (auto simp: quantize_cents_def Let_def split: decimal.splits if_splits)

lemma quantize_cents_QNaN: "quantize_cents QNaN = Inr QNaN"
  by (simp add: quantize_cents_def)

text \<open>\<open>format_currency\<close> raises exactly on a quiet NaN, given as a \<open>Decimal\<close> or as a number.\<close>

lemma format_currency_raises_iff:
  "(\<exists>e. format_currency a = Inl e) \<longleftrightarrow>
     (a = ArgDecimal QNaN \<or> (\<exists>s. a = ArgNumber s \<and> decimal_of_string s = Some QNaN))"
proof -
  define conv where "conv = (case a of ArgNone \<Rightarrow> Some (Finite False 0 0)
     | ArgDecimal d \<Rightarrow> Some d | ArgNumber s \<Rightarrow> decimal_of_string s)"
  define quant where "quant = (case conv of None \<Rightarrow> Finite False 0 0
     | Some d \<Rightarrow> (case quantize_cents d of Inl e \<Rightarrow> Finite False 0 0 | Inr q \<Rightarrow> q))"
  have 1: "(\<exists>e. format_currency a = Inl e) \<longleftrightarrow> (\<exists>e. lt_zero quant = Inl e)"
    unfolding format_currency_def quant_def conv_def Let_def
    by (auto split: sum.splits)
  have 2: "(\<exists>e. lt_zero quant = Inl e) \<longleftrightarrow> quant = QNaN"
  proof -
    have "quant \<noteq> SNaN \<and> (\<forall>s. quant \<noteq> Infinity s)"
      unfolding quant_def
      by (auto split: option.splits sum.splits dest: quantize_cents_result2)
    then show ?thesis by (cases quant) (auto simp: lt_zero_def)
  qed
  have 3: "quant = QNaN \<longleftrightarrow> conv = Some QNaN"
    unfolding quant_def
    by (auto split: option.splits sum.splits dest: quantize_cents_result2 simp: quantize_cents_QNaN)
  have 4: "conv = Some QNaN \<longleftrightarrow>
     (a = ArgDecimal QNaN \<or> (\<exists>s. a = ArgNumber s \<and> decimal_of_string s = Some QNaN))"
    unfolding conv_def by (cases a) auto
  from 1 2 3 4 show ?thesis by simp
qed

lemma decimal_of_string_nan: "decimal_of_string ''nan'' = Some QNaN"
  by (simp add: decimal_of_string_def split_sign_def strip_def lstrip_def rstrip_def is_space_def
        upper_def upper_char_def Let_def)

text \<open>
  Claim C9 fails on the code.  A quiet NaN passes \<open>quantize\<close> inside the \<open>try\<close> block and
  reaches the comparison \<open>quantized < 0\<close> outside of it, which raises.
\<close>

theorem format_currency_raises_on_nan:
  "format_currency (ArgDecimal QNaN) = Inl (InvalidOperation ''comparison involving NaN'')
   \<and> format_currency (ArgNumber ''nan'') = Inl (InvalidOperation ''comparison involving NaN'')"
  by (simp add: format_currency_def decimal_of_string_nan quantize_cents_def lt_zero_def)

text \<open>A missing value is rendered as zero; a negative zero keeps its sign after the symbol.\<close>

lemma format_currency_none: "format_currency ArgNone = Inr ''$0,00''"
  by (simp add: format_currency_def quantize_cents_def lt_zero_def str_decimal_def Let_def
        digit_char_def ljust2_def)

lemma decimal_of_string_neg_zero: "decimal_of_string ''-0.0'' = Some (Finite True 0 (- 1))"
  by (simp add: decimal_of_string_def split_sign_def strip_def lstrip_def rstrip_def is_space_def
        upper_def upper_char_def is_digit_def parse_exponent_def nat_of_digits_def digit_val_def Let_def)

lemma format_currency_negative_zero: "format_currency (ArgNumber ''-0.0'') = Inr ''$-0,00''"
  by (simp add: format_currency_def decimal_of_string_neg_zero quantize_cents_def lt_zero_def
        str_decimal_def Let_def digit_char_def ljust2_def)

section \<open>The calendar\<close>

lemma days_before_year_nat:
  "days_before_year (Suc n) = int n * 365 + int (n div 4) - int (n div 100) + int (n div 400)"
  by (simp add: days_before_year_def Let_def zdiv_int)

lemma mod_400_100: "(y::nat) mod 400 = 0 \<Longrightarrow> y mod 100 = 0"
  by presburger

lemma mod_100_4: "(y::nat) mod 100 = 0 \<Longrightarrow> y mod 4 = 0"
  by presburger

lemma days_before_year_Suc:
  assumes "1 \<le> y"
  shows "days_before_year (Suc y) = days_before_year y + (if is_leap y then 366 else 365)"
proof -
  from assms obtain n where y: "y = Suc n" by (cases y) auto
  have d: "\<And>k. Suc n div k = (if Suc n mod k = 0 then Suc (n div k) else n div k)"
    by (rule div_Suc)
  show ?thesis
    unfolding y days_before_year_nat is_leap_def
    using mod_400_100[of "Suc n"] mod_100_4[of "Suc n"]
    by (simp add: d[of 4] d[of 100] d[of 400])
qed

lemma days_before_year_mono:
  assumes "1 \<le> y" and "y \<le> y'"
  shows "days_before_year y \<le> days_before_year y'"
  using assms(2)
proof (induction rule: dec_induct)
  case base show ?case by simp
next
  case (step n)
  with assms(1) have "1 \<le> n" by simp
  from days_before_year_Suc[OF this] step show ?case by (simp split: if_splits)
qed

lemma month_cases: "1 \<le> m \<Longrightarrow> m \<le> 12 \<Longrightarrow>
  m = 1 \<or> m = 2 \<or> m = 3 \<or> m = 4 \<or> m = 5 \<or> m = 6 \<or> m = 7 \<or> m = 8 \<or> m = 9 \<or> m = 10 \<or> m = 11 \<or> m = (12::nat)"
  by arith

lemma days_before_month_Suc:
  "1 \<le> m \<Longrightarrow> m < 12 \<Longrightarrow>
   days_before_month y (Suc m) = days_before_month y m + int (days_in_month y m)"
  using month_cases[of m]
  by (auto simp: days_before_month_def days_in_month_def)

lemma days_before_month_12:
  "days_before_month y 12 + int (days_in_month y 12) = (if is_leap y then 366 else 365)"
  by (simp add: days_before_month_def days_in_month_def)

lemma days_in_month_pos: "1 \<le> m \<Longrightarrow> m \<le> 12 \<Longrightarrow> 28 \<le> days_in_month y m"
  using month_cases[of m] by (auto simp: days_in_month_def)

lemma days_before_month_mono:
  assumes "1 \<le> m" and "m \<le> m'" and "m' \<le> 12"
  shows "days_before_month y m \<le> days_before_month y m'"
  using assms(2,3)
proof (induction rule: dec_induct)
  case base show ?case by simp
next
  case (step n)
  with assms(1) have "1 \<le> n" "n < 12" by simp_all
  from days_before_month_Suc[OF this, of y] step show ?case by simp
qed

lemma days_before_month_nonneg: "0 \<le> days_before_month y m"
  by (simp add: days_before_month_def)

lemma toordinal_upper:
  assumes "valid_date d"
  shows "toordinal d \<le> days_before_year (Suc (year d))"
proof -
  from assms have v: "1 \<le> year d" "1 \<le> month d" "month d \<le> 12" "day d \<le> days_in_month (year d) (month d)"
    by (auto simp: valid_date_def)
  have "days_before_month (year d) (month d) + int (days_in_month (year d) (month d))
          \<le> (if is_leap (year d) then 366 else 365)"
  proof (cases "month d = 12")
    case True
    then show ?thesis using days_before_month_12[of "year d"] by simp
  next
    case False
    with v have lt: "month d < 12" by simp
    from v lt have "days_before_month (year d) (Suc (month d)) \<le> days_before_month (year d) 12"
      by (intro days_before_month_mono) auto
    moreover have "0 \<le> int (days_in_month (year d) 12)" by simp
    ultimately show ?thesis
      using days_before_month_Suc[OF v(2) lt, of "year d"] days_before_month_12[of "year d"]
      by (simp split: if_splits)
  qed
  with v(4) show ?thesis
    unfolding toordinal_def days_before_year_Suc[OF v(1)] by (simp split: if_splits)
qed

lemma toordinal_lower: "valid_date d \<Longrightarrow> days_before_year (year d) < toordinal d"
  using days_before_month_nonneg[of "year d" "month d"]
  by (simp add: toordinal_def valid_date_def)

lemma date_less_toordinal:
  assumes "valid_date a" and "valid_date b" and "date_less a b"
  shows "toordinal a < toordinal b"
proof -
  from assms(1,2) have va: "1 \<le> year a" "1 \<le> month a" "month a \<le> 12" "1 \<le> day a"
      "day a \<le> days_in_month (year a) (month a)"
    and vb: "1 \<le> year b" "1 \<le> month b" "month b \<le> 12" "1 \<le> day b"
    by (auto simp: valid_date_def)
  from assms(3) consider "year a < year b"
    | "year a = year b" "month a < month b"
    | "year a = year b" "month a = month b" "day a < day b"
    by (auto simp: date_less_def)
  then show ?thesis
  proof cases
    case 1
    then have "days_before_year (Suc (year a)) \<le> days_before_year (year b)"
      by (intro days_before_year_mono) auto
    with toordinal_upper[OF assms(1)] toordinal_lower[OF assms(2)] show ?thesis by simp
  next
    case 2
    with va vb have lt: "month a < 12" by simp
    from 2 vb have "days_before_month (year a) (Suc (month a)) \<le> days_before_month (year a) (month b)"
      by (intro days_before_month_mono) auto
    with days_before_month_Suc[OF va(2) lt, of "year a"] va(5) vb(4) 2 show ?thesis
      by (simp add: toordinal_def)
  next
    case 3
    then show ?thesis by (simp add: toordinal_def)
  qed
qed

lemma date_less_total: "a \<noteq> b \<Longrightarrow> date_less a b \<or> date_less b a"
  by (cases a; cases b) (auto simp: date_less_def)

lemma date_less_irrefl: "\<not> date_less a a"
  by (simp add: date_less_def)

lemma date_less_iff_toordinal:
  assumes "valid_date a" and "valid_date b"
  shows "date_less a b \<longleftrightarrow> toordinal a < toordinal b"
proof
  assume "date_less a b" with assms show "toordinal a < toordinal b" by (rule date_less_toordinal)
next
  assume lt: "toordinal a < toordinal b"
  then have "a \<noteq> b" by auto
  then consider "date_less a b" | "date_less b a" using date_less_total by blast
  then show "date_less a b"
  proof cases
    case 1 then show ?thesis .
  next
    case 2
    from date_less_toordinal[OF assms(2,1) this] lt show ?thesis by simp
  qed
qed

lemma prev_day_ok:
  assumes "valid_date d" and "prev_day d = Inr p"
  shows "valid_date p \<and> toordinal p = toordinal d - 1"
proof -
  from assms(1) have v: "1 \<le> year d" "year d \<le> 9999" "1 \<le> month d" "month d \<le> 12" "1 \<le> day d"
      "day d \<le> days_in_month (year d) (month d)"
    by (auto simp: valid_date_def)
  consider "day d > 1" | "day d = 1" "month d > 1" | "day d = 1" "month d = 1" "year d > 1"
    | "day d = 1" "month d = 1" "year d = 1"
    using v by linarith
  then show ?thesis
  proof cases
    case 1
    with assms(2) have p: "p = Date (year d) (month d) (day d - 1)" by (simp add: prev_day_def)
    with 1 v show ?thesis by (auto simp: valid_date_def toordinal_def of_nat_diff)
  next
    case 2
    with assms(2) have p: "p = Date (year d) (month d - 1) (days_in_month (year d) (month d - 1))"
      by (simp add: prev_day_def)
    from 2 v have m: "1 \<le> month d - 1" "month d - 1 < 12" by simp_all
    from days_in_month_pos[of "month d - 1" "year d"] m
    have "28 \<le> days_in_month (year d) (month d - 1)" by simp
    moreover from days_before_month_Suc[OF m, of "year d"] 2
    have "days_before_month (year d) (month d)
            = days_before_month (year d) (month d - 1) + int (days_in_month (year d) (month d - 1))"
      by simp
    ultimately have "toordinal p = toordinal d - 1" "1 \<le> days_in_month (year d) (month d - 1)"
      using p 2 by (simp_all add: toordinal_def)
    moreover from m v have "1 \<le> month d - 1 \<and> month d - 1 \<le> 12" by arith
    ultimately show ?thesis using p v by (simp add: valid_date_def)
  next
    case 3
    with assms(2) have p: "p = Date (year d - 1) 12 31" by (simp add: prev_day_def)
    from 3 have y: "1 \<le> year d - 1" "Suc (year d - 1) = year d" by simp_all
    from days_before_year_Suc[OF y(1)] y(2)
    have "days_before_year (year d) = days_before_year (year d - 1)
             + (if is_leap (year d - 1) then 366 else 365)" by simp
    moreover have "days_before_month (year d - 1) 12 + 31 = (if is_leap (year d - 1) then 366 else 365)"
      by (simp add: days_before_month_def)
    moreover have "days_before_month (year d) 1 = 0" by (simp add: days_before_month_def)
    moreover have "days_in_month (year d - 1) 12 = 31" by (simp add: days_in_month_def)
    ultimately have o: "toordinal p = toordinal d - 1" using p 3 by (simp add: toordinal_def)
    from 3 v have "1 \<le> year d - 1 \<and> year d - 1 \<le> 9999" by arith
    then have "valid_date p" using p by (simp add: valid_date_def days_in_month_def)
    with o show ?thesis by simp
  next
    case 4
    with assms(2) show ?thesis by (simp add: prev_day_def)
  qed
qed

lemma toordinal_first: "toordinal (Date 1 1 1) = 1"
  by (simp add: toordinal_def days_before_year_def days_before_month_def)

lemma prev_day_error:
  assumes "valid_date d" and "prev_day d = Inl e"
  shows "toordinal d = 1"
proof -
  from assms have "day d = 1 \<and> month d = 1 \<and> year d = 1"
    by (auto simp: prev_day_def valid_date_def split: if_splits)
  then show ?thesis
    by (simp add: toordinal_def days_before_year_def days_before_month_def)
qed

lemma minus_days_ok:
  assumes "valid_date d" and "int n < toordinal d"
  shows "\<exists>p. minus_days d n = Inr p \<and> valid_date p \<and> toordinal p = toordinal d - int n"
  using assms
proof (induction n arbitrary: d)
  case 0
  then show ?case by simp
next
  case (Suc n)
  show ?case
  proof (cases "prev_day d")
    case (Inl e)
    from prev_day_error[OF Suc.prems(1) this] Suc.prems(2) show ?thesis by simp
  next
    case (Inr q)
    from prev_day_ok[OF Suc.prems(1) this] have q: "valid_date q" "toordinal q = toordinal d - 1" by auto
    with Suc.prems(2) have "int n < toordinal q" by simp
    from Suc.IH[OF q(1) this] q(2) Inr show ?thesis by auto
  qed
qed

lemma make_date_valid: "make_date y m d = Inr x \<Longrightarrow> valid_date x"
  by (auto simp: make_date_def valid_date_def split: if_splits)

lemma make_date_error: "make_date y m d = Inl e \<Longrightarrow> \<exists>msg. e = ValueError msg"
  by (auto simp: make_date_def split: if_splits)

lemma fromisoformat_valid: "fromisoformat s = Inr x \<Longrightarrow> valid_date x"
  by (auto simp: fromisoformat_def split: if_splits dest: make_date_valid)

lemma fromisoformat_error: "fromisoformat s = Inl e \<Longrightarrow> \<exists>msg. e = ValueError msg"
  by (auto simp: fromisoformat_def split: if_splits dest: make_date_error)

section \<open>Validation of the extraction result\<close>

lemma check_date_bad_format:
  assumes "fromisoformat (strip (py_str v)) = Inl e"
  shows "\<exists>m. check_date today v = Inl (ValueError m)"
proof -
  from fromisoformat_error[OF assms] obtain msg where "e = ValueError msg" by blast
  with assms show ?thesis by (simp add: check_date_def Let_def)
qed

lemma check_date_future:
  assumes "fromisoformat (strip (py_str v)) = Inr d" and "valid_date today"
    and "toordinal today < toordinal d"
  shows "\<exists>m. check_date today v = Inl (ValueError m)"
proof -
  from assms have "date_less today d"
    by (simp add: date_less_iff_toordinal fromisoformat_valid)
  with assms(1) show ?thesis by (simp add: check_date_def Let_def)
qed

lemma check_date_too_old:
  assumes "fromisoformat (strip (py_str v)) = Inr d" and "valid_date today"
    and "3650 < toordinal today" and "toordinal d < toordinal today - 3650"
  shows "\<exists>m. check_date today v = Inl (ValueError m)"
proof -
  from minus_days_ok[OF assms(2), of 3650] assms(3)
  obtain limit where l: "minus_days today 3650 = Inr limit" "valid_date limit"
      "toordinal limit = toordinal today - 3650" by auto
  from assms have d: "valid_date d" by (simp add: fromisoformat_valid)
  from assms(4) l(3) have "date_less d limit" by (simp add: date_less_iff_toordinal d l(2))
  with assms(1) l(1) show ?thesis by (simp add: check_date_def Let_def)
qed

lemma check_date_in_window:
  assumes "fromisoformat (strip (py_str v)) = Inr d" and "valid_date today"
    and "3650 < toordinal today"
    and "toordinal today - 3650 \<le> toordinal d" and "toordinal d \<le> toordinal today"
  shows "check_date today v = Inr (strftime_ymd d)"
proof -
  from minus_days_ok[OF assms(2), of 3650] assms(3)
  obtain limit where l: "minus_days today 3650 = Inr limit" "valid_date limit"
      "toordinal limit = toordinal today - 3650" by auto
  from assms have d: "valid_date d" by (simp add: fromisoformat_valid)
  from assms(4) l(3) have 1: "\<not> date_less d limit" by (simp add: date_less_iff_toordinal d l(2))
  from assms(5) have 2: "\<not> date_less today d" by (simp add: date_less_iff_toordinal d assms(2))
  from assms(1) l(1) 1 2 show ?thesis by (simp add: check_date_def Let_def)
qed

lemma check_required_error: "check_required parsed = Inl e \<Longrightarrow> \<exists>m. e = ValueError m"
  by (auto simp: check_required_def split: option.splits)

lemma check_amount_error: "check_amount v = Inl e \<Longrightarrow> \<exists>m. e = ValueError m"
  unfolding check_amount_def Let_def
  by (auto split: option.splits sum.splits bool.splits exn.splits
        dest!: quantize_cents_error le_zero_error)

lemma check_type_mismatch:
  assumes "category_type_value (cat_type category) \<noteq> lower (py_str tv)"
  shows "\<exists>m. check_type tv category_id category = Inl (ValueError m)"
proof (cases "lower (py_str tv) \<in> set [''expense'', ''income'']")
  case False
  then show ?thesis by (simp add: check_type_def Let_def)
next
  case True
  with assms have "cat_type category \<noteq> (if lower (py_str tv) = ''expense'' then EXPENSE else INCOME)"
    by (cases "cat_type category") auto
  with True show ?thesis by (simp add: check_type_def Let_def)
qed

text \<open>
  Claim C3.  When the category id of the response resolves to a category whose type is not
  the declared type (the lowercased \<open>type\<close> field), \<open>_validate_and_normalize_response\<close>
  raises a \<open>ValueError\<close>, whatever the other fields hold; no result is returned.
\<close>

theorem category_type_mismatch_rejected:
  assumes "parsed ''category_id'' = Some cv"
    and "py_int cv = Inr category_id"
    and "List.find (\<lambda>c. cat_id c = category_id) categories = Some category"
    and "parsed ''type'' = Some tv"
    and "category_type_value (cat_type category) \<noteq> lower (py_str tv)"
  shows "\<exists>m. validate_and_normalize_response today parsed categories = Inl (ValueError m)"
proof (cases "check_required parsed")
  case (Inl e)
  with check_required_error[OF Inl] show ?thesis
    by (auto simp: validate_and_normalize_response_def)
next
  case req: (Inr u)
  show ?thesis
  proof (cases "check_amount (the (parsed ''amount''))")
    case (Inl e)
    with check_amount_error[OF Inl] req show ?thesis
      by (auto simp: validate_and_normalize_response_def)
  next
    case (Inr amount)
    from assms(1-3) have c: "check_category (the (parsed ''category_id'')) categories
        = Inr (category_id, category)"
      by (simp add: check_category_def)
    from check_type_mismatch[OF assms(5), of category_id] assms(4)
    obtain m where "check_type (the (parsed ''type'')) category_id category = Inl (ValueError m)"
      by auto
    with req Inr c show ?thesis
      by (simp add: validate_and_normalize_response_def)
  qed
qed

lemma find_demo_2: "List.find (\<lambda>c. cat_id c = 2) demo_categories
   = Some \<lparr>cat_id = 2, cat_user_id = 7, cat_name = ''Salario'', cat_type = INCOME, is_default = True\<rparr>"
  by (simp add: demo_categories_def)

lemma lower_Expense: "lower ''Expense'' = ''expense''"
  by (simp add: lower_def lower_char_def)

theorem category_type_mismatch_rejected_witness:
  "\<exists>m. validate_and_normalize_response demo_today (demo_parsed 2 ''2025-06-14'') demo_categories
         = Inl (ValueError m)"
proof (rule category_type_mismatch_rejected [where cv = "JInt 2" and category_id = 2
          and tv = "JStr ''Expense''", OF _ _ find_demo_2])
  show "demo_parsed 2 ''2025-06-14'' ''category_id'' = Some (JInt 2)"
    by (simp add: demo_parsed_def)
  show "py_int (JInt 2) = Inr 2" by simp
  show "demo_parsed 2 ''2025-06-14'' ''type'' = Some (JStr ''Expense'')"
    by (simp add: demo_parsed_def)
  show "category_type_value (cat_type \<lparr>cat_id = 2, cat_user_id = 7, cat_name = ''Salario'',
            cat_type = INCOME, is_default = True\<rparr>) \<noteq> lower (py_str (JStr ''Expense''))"
    by (simp add: lower_Expense)
qed


text \<open>Whatever the other fields hold, an accepted response has its date inside the window.\<close>

lemma check_date_accepts:
  assumes "check_date today v = Inr s" and "valid_date today" and "3650 < toordinal today"
  shows "\<exists>d. fromisoformat (strip (py_str v)) = Inr d \<and> s = strftime_ymd d
            \<and> toordinal today - 3650 \<le> toordinal d \<and> toordinal d \<le> toordinal today"
proof (cases "fromisoformat (strip (py_str v))")
  case (Inl e)
  from check_date_bad_format[OF this, of today] assms(1) show ?thesis by auto
next
  case (Inr d)
  have 1: "\<not> toordinal today < toordinal d"
    using check_date_future[OF Inr assms(2)] assms(1) by auto
  have 2: "\<not> toordinal d < toordinal today - 3650"
    using check_date_too_old[OF Inr assms(2,3)] assms(1) by auto
  from 1 2 check_date_in_window[OF Inr assms(2,3)] assms(1) Inr show ?thesis by auto
qed

lemma accepted_date_in_window:
  assumes "validate_and_normalize_response today parsed categories = Inr r"
    and "valid_date today" and "3650 < toordinal today"
  shows "\<exists>d. fromisoformat (date_text parsed) = Inr d \<and> ex_date r = strftime_ymd d
            \<and> toordinal today - 3650 \<le> toordinal d \<and> toordinal d \<le> toordinal today"
proof -
  from assms(1) obtain s where s: "check_date today (the (parsed ''date'')) = Inr s" "ex_date r = s"
    by (auto simp: validate_and_normalize_response_def split: sum.splits prod.splits)
  from check_date_accepts[OF s(1) assms(2,3)] s(2) show ?thesis
    by (auto simp: date_text_def)
qed























end
